theory Spec2Isabelle
  imports Complex_Main "HOL-Library.AList" "HOL-Library.Sublist"
begin

section \<open>The oracle conversation service (src/services/oracleService.ts)\<close>

text \<open>
  The model follows the class \<open>OracleService\<close>. Numbers that the service only ever
  counts up from zero (\<open>messageCount\<close>, \<open>lastAgentIndex\<close>) are natural numbers;
  millisecond clock readings (\<open>Date.now()\<close>) are integers and each reading is an
  argument of the function that takes it (the readings inside one object literal are
  taken as one). A draw of \<open>Math.random()\<close> is an argument too, idealised as a real
  number. Text is a list of 8-bit characters.
\<close>

subsection \<open>Data model\<close>

datatype MessageType = TypeMessage | TypeAnalysis | TypePrediction

record OracleMessage =
  msg_id :: string
  agent :: string
  message :: string
  timestamp :: int
  msg_type :: MessageType
  sessionId :: string

text \<open>
  A session node as the store holds it. \<open>initializeSession\<close> writes every field of
  the interface but the four marked \<open>?\<close>; \<open>updateSession\<close> merges
  \<open>lastAgentIndex\<close>, \<open>messageCount\<close>, \<open>updatedAt\<close> and, when its argument has a
  timestamp, \<open>lastMessageTime\<close>. The fields a node written by the service may lack are
  options.
\<close>

record OracleSession =
  session_id :: "string option"
  lastAgentIndex :: nat
  messageCount :: nat
  lastMessageTime :: "int option"
  isActive :: "bool option"
  createdAt :: "int option"
  updatedAt :: int
  currentTopic :: "string option"
  conversationTheme :: "string option"
  lastTopicChange :: "int option"
  topicHistory :: "string list option"

text \<open>\<open>private readonly agents\<close>: the fixed roster.\<close>

definition agents :: "string list" where
  "agents = [''analyzer'', ''predictor'', ''quantum-eraser'', ''retrocausal'']"

text \<open>\<open>xs.slice(-n)\<close>: the last \<open>n\<close> elements, all of them when there are fewer.\<close>

definition slice_last :: "nat \<Rightarrow> 'a list \<Rightarrow> 'a list" where
  "slice_last n xs = drop (length xs - n) xs"

subsection \<open>Topic extraction\<close>

text \<open>
  \<open>String.prototype.toLowerCase\<close> on the letters A to Z. The keyword table is ASCII and
  no other 8-bit character lower-cases to an ASCII letter, so the keyword matches do not
  depend on what happens to the other characters.
\<close>

definition toLowerCase_char :: "char \<Rightarrow> char" where
  "toLowerCase_char c =
     (let n = (of_char c :: nat) in if 65 \<le> n \<and> n \<le> 90 then char_of (n + 32) else c)"

definition toLowerCase :: "string \<Rightarrow> string" where
  "toLowerCase s = map toLowerCase_char s"

fun startsWith :: "'a list \<Rightarrow> 'a list \<Rightarrow> bool" where
  "startsWith s [] = True"
| "startsWith [] (k # ks) = False"
| "startsWith (c # cs) (k # ks) = (c = k \<and> startsWith cs ks)"

text \<open>\<open>s.includes(keyword)\<close>: the keyword occurs in \<open>s\<close> as a contiguous run.\<close>

fun includes_str :: "'a list \<Rightarrow> 'a list \<Rightarrow> bool" where
  "includes_str [] keyword = (keyword = [])"
| "includes_str (c # cs) keyword = (startsWith (c # cs) keyword \<or> includes_str cs keyword)"

text \<open>The table \<open>topicKeywords\<close>, in declaration order (the order of \<open>Object.entries\<close>).\<close>

definition topicKeywords :: "(string \<times> string list) list" where
  "topicKeywords =
    [(''market_analysis'', [''market'', ''price'', ''volume'', ''liquidity'', ''trading'']),
     (''holder_behavior'', [''holders'', ''distribution'', ''concentration'', ''whales'']),
     (''technical_analysis'', [''levels'', ''support'', ''resistance'', ''patterns'', ''indicators'']),
     (''fundamentals'', [''utility'', ''adoption'', ''innovation'', ''technology'', ''use case'']),
     (''market_sentiment'', [''fear'', ''greed'', ''optimism'', ''pessimism'', ''sentiment'']),
     (''risk_assessment'', [''risk'', ''danger'', ''warning'', ''caution'', ''safety'']),
     (''future_outlook'', [''future'', ''prediction'', ''forecast'', ''scenario'', ''outcome''])]"

text \<open>The test of the loop body: some keyword of the category occurs in the text.\<close>

definition matchesTopic :: "string \<Rightarrow> string \<times> string list \<Rightarrow> bool" where
  "matchesTopic messageLower entry = list_ex (\<lambda>keyword. includes_str messageLower keyword) (snd entry)"

definition extractTopics :: "string \<Rightarrow> string list" where
  "extractTopics msg =
     (let messageLower = toLowerCase msg;
          foundTopics = map fst (filter (matchesTopic messageLower) topicKeywords)
      in if length foundTopics > 0 then foundTopics else [''general_market_discussion''])"

subsection \<open>Choosing the next agent\<close>

text \<open>
  The local constants of \<open>determineNextAgent\<close>, each as a definition of its own. They
  are read only after the test for an empty history.
\<close>

definition timeSinceLastMessage :: "int \<Rightarrow> OracleMessage list \<Rightarrow> int" where
  "timeSinceLastMessage now recentMessages = (now - timestamp (last recentMessages)) div 1000"

definition isLooping :: "OracleMessage list \<Rightarrow> bool" where
  "isLooping recentMessages =
     (let lastAgent = agent (last recentMessages);
          recentAgentSequence = map agent (slice_last 3 recentMessages)
      in list_all (\<lambda>a. a = lastAgent) recentAgentSequence)"

definition shouldSelfRespond :: "int \<Rightarrow> real \<Rightarrow> OracleMessage list \<Rightarrow> bool" where
  "shouldSelfRespond now r recentMessages =
     (timeSinceLastMessage now recentMessages < 60 \<and> r < 15 / 100)"

text \<open>
  \<open>determineNextAgent\<close> reads and writes the field \<open>this.lastAgentIndex\<close>: the index
  is an argument and the second component of the result. \<open>now\<close> is the reading of
  \<open>Date.now()\<close> and \<open>r\<close> the draw of \<open>Math.random()\<close>.
\<close>

definition determineNextAgent :: "int \<Rightarrow> real \<Rightarrow> OracleMessage list \<Rightarrow> nat \<Rightarrow> string \<times> nat" where
  "determineNextAgent now r recentMessages idx =
     (if length recentMessages = 0 then (agents ! 0, 0)
      else if isLooping recentMessages then
        (let nextIndex = (idx + 1) mod length agents in (agents ! nextIndex, nextIndex))
      else if shouldSelfRespond now r recentMessages then (agent (last recentMessages), idx)
      else (let nextIndex = (idx + 1) mod length agents in (agents ! nextIndex, nextIndex)))"

subsection \<open>The store\<close>

text \<open>
  The Firebase Realtime Database as the service uses it: the collection
  \<open>oracle-messages\<close>, keyed by message id, and the one node
  \<open>oracle-session/sessionId\<close>. A configured database is taken to answer every
  request; an unconfigured one is \<open>getFirebaseDatabase()\<close> returning \<open>null\<close>.
\<close>

record Database =
  oracle_messages :: "(string \<times> OracleMessage) list"
  oracle_session :: "OracleSession option"

text \<open>
  A property of the object handed to \<open>ref.update\<close>: not there, there with the value
  \<open>undefined\<close>, or there with a value.
\<close>

datatype 'a field = Absent | Undefined | Value 'a

record SessionUpdate =
  upd_lastAgentIndex :: "nat field"
  upd_messageCount :: "nat field"
  upd_lastMessageTime :: "int field"
  upd_updatedAt :: "int field"
  upd_currentTopic :: "string field"
  upd_conversationTheme :: "string field"
  upd_lastTopicChange :: "int field"
  upd_topicHistory :: "string list field"

datatype StoreError = ContainsUndefined

fun isUndefined :: "'a field \<Rightarrow> bool" where
  "isUndefined Undefined = True"
| "isUndefined Absent = False"
| "isUndefined (Value v) = False"

definition hasUndefined :: "SessionUpdate \<Rightarrow> bool" where
  "hasUndefined u =
     (isUndefined (upd_lastAgentIndex u) \<or> isUndefined (upd_messageCount u) \<or>
      isUndefined (upd_lastMessageTime u) \<or> isUndefined (upd_updatedAt u) \<or>
      isUndefined (upd_currentTopic u) \<or> isUndefined (upd_conversationTheme u) \<or>
      isUndefined (upd_lastTopicChange u) \<or> isUndefined (upd_topicHistory u))"

fun merge_plain :: "'a field \<Rightarrow> 'a \<Rightarrow> 'a" where
  "merge_plain (Value v) old = v"
| "merge_plain Absent old = old"
| "merge_plain Undefined old = old"

fun merge_opt :: "'a field \<Rightarrow> 'a option \<Rightarrow> 'a option" where
  "merge_opt (Value v) old = Some v"
| "merge_opt Absent old = old"
| "merge_opt Undefined old = old"

definition mergeSession :: "SessionUpdate \<Rightarrow> OracleSession \<Rightarrow> OracleSession" where
  "mergeSession u s =
     s\<lparr>lastAgentIndex := merge_plain (upd_lastAgentIndex u) (lastAgentIndex s),
       messageCount := merge_plain (upd_messageCount u) (messageCount s),
       lastMessageTime := merge_opt (upd_lastMessageTime u) (lastMessageTime s),
       updatedAt := merge_plain (upd_updatedAt u) (updatedAt s),
       currentTopic := merge_opt (upd_currentTopic u) (currentTopic s),
       conversationTheme := merge_opt (upd_conversationTheme u) (conversationTheme s),
       lastTopicChange := merge_opt (upd_lastTopicChange u) (lastTopicChange s),
       topicHistory := merge_opt (upd_topicHistory u) (topicHistory s)\<rparr>"

text \<open>
  An update of a node that does not exist creates it from the values given. Every update
  the service sends without an undefined value carries \<open>lastAgentIndex\<close>,
  \<open>messageCount\<close> and \<open>updatedAt\<close>; one that lacked them would create a node that is
  no \<open>OracleSession\<close>, and the node stays absent in the model then.
\<close>

definition newNode :: "SessionUpdate \<Rightarrow> OracleSession option" where
  "newNode u =
     (case (upd_lastAgentIndex u, upd_messageCount u, upd_updatedAt u) of
        (Value i, Value c, Value t) \<Rightarrow>
          Some \<lparr>session_id = None, lastAgentIndex = i, messageCount = c,
                lastMessageTime = merge_opt (upd_lastMessageTime u) None,
                isActive = None, createdAt = None, updatedAt = t,
                currentTopic = merge_opt (upd_currentTopic u) None,
                conversationTheme = merge_opt (upd_conversationTheme u) None,
                lastTopicChange = merge_opt (upd_lastTopicChange u) None,
                topicHistory = merge_opt (upd_topicHistory u) None\<rparr>
      | _ \<Rightarrow> None)"

text \<open>
  \<open>sessionRef.update(values)\<close>. The Firebase SDK validates the object before it writes
  anything and throws when a property holds \<open>undefined\<close> (the reason why
  \<open>updateSession\<close> deletes such keys first); otherwise the given properties are merged
  into the node and the others keep their values.
\<close>

definition ref_update :: "SessionUpdate \<Rightarrow> Database \<Rightarrow> StoreError + Database" where
  "ref_update u d =
     (if hasUndefined u then Inl ContainsUndefined
      else case oracle_session d of
             Some s \<Rightarrow> Inr (d\<lparr>oracle_session := Some (mergeSession u s)\<rparr>)
           | None \<Rightarrow> Inr (d\<lparr>oracle_session := newNode u\<rparr>))"

subsection \<open>The service\<close>

text \<open>
  The fields of the singleton and the database it reaches: \<open>db = None\<close> is
  \<open>getFirebaseDatabase()\<close> returning \<open>null\<close>; \<open>interval\<close> says whether the timer is set.
\<close>

record OracleService =
  isRunning :: bool
  interval :: bool
  this_lastAgentIndex :: nat
  this_sessionId :: string
  db :: "Database option"

definition getCurrentSession :: "OracleService \<Rightarrow> OracleSession option" where
  "getCurrentSession w = (case db w of None \<Rightarrow> None | Some d \<Rightarrow> oracle_session d)"

text \<open>
  \<open>orderByChild('timestamp').limitToLast(limit)\<close>: the \<open>limit\<close> messages with the
  latest timestamps, oldest first.
\<close>

definition getRecentMessages :: "nat \<Rightarrow> OracleService \<Rightarrow> OracleMessage list" where
  "getRecentMessages limit w =
     (case db w of
        None \<Rightarrow> []
      | Some d \<Rightarrow> slice_last limit (sort_key timestamp (map snd (oracle_messages d))))"

definition saveMessage :: "OracleMessage \<Rightarrow> OracleService \<Rightarrow> OracleService" where
  "saveMessage m w =
     (case db w of
        None \<Rightarrow> w
      | Some d \<Rightarrow>
          w\<lparr>db := Some (d\<lparr>oracle_messages := AList.update (msg_id m) m (oracle_messages d)\<rparr>)\<rparr>)"

definition initializeSession :: "int \<Rightarrow> OracleService \<Rightarrow> OracleService" where
  "initializeSession now w =
     (case db w of
        None \<Rightarrow> w
      | Some d \<Rightarrow>
          (case oracle_session d of
             Some session \<Rightarrow> w\<lparr>this_lastAgentIndex := lastAgentIndex session\<rparr>
           | None \<Rightarrow>
               w\<lparr>db := Some (d\<lparr>oracle_session :=
                 Some \<lparr>session_id = Some (this_sessionId w), lastAgentIndex = 0,
                       messageCount = 0, lastMessageTime = Some now, isActive = Some True,
                       createdAt = Some now, updatedAt = now, currentTopic = None,
                       conversationTheme = None, lastTopicChange = None,
                       topicHistory = None\<rparr>\<rparr>)\<rparr>))"

text \<open>
  \<open>updateSession\<close> is declared for a message and is also called with a session object
  to which topic fields were added. It reads one property of its argument,
  \<open>timestamp\<close>, which a session object does not have.
\<close>

datatype UpdateArg = MessageArg OracleMessage | SessionArg OracleSession

fun arg_timestamp :: "UpdateArg \<Rightarrow> int field" where
  "arg_timestamp (MessageArg m) = Value (timestamp m)"
| "arg_timestamp (SessionArg s) = Undefined"

text \<open>The loop \<open>Object.keys(updateData).forEach\<close>: undefined properties are deleted.\<close>

fun deleteUndefined :: "'a field \<Rightarrow> 'a field" where
  "deleteUndefined Undefined = Absent"
| "deleteUndefined Absent = Absent"
| "deleteUndefined (Value v) = Value v"

definition updateSession :: "int \<Rightarrow> UpdateArg \<Rightarrow> OracleService \<Rightarrow> OracleService" where
  "updateSession now arg w =
     (case db w of
        None \<Rightarrow> w
      | Some d \<Rightarrow>
          (let currentSession = getCurrentSession w;
               updateData =
                 \<lparr>upd_lastAgentIndex = deleteUndefined (Value (this_lastAgentIndex w)),
                  upd_messageCount = deleteUndefined
                    (Value ((case currentSession of None \<Rightarrow> 0 | Some s \<Rightarrow> messageCount s) + 1)),
                  upd_lastMessageTime = deleteUndefined (arg_timestamp arg),
                  upd_updatedAt = deleteUndefined (Value now),
                  upd_currentTopic = Absent, upd_conversationTheme = Absent,
                  upd_lastTopicChange = Absent, upd_topicHistory = Absent\<rparr>
           in case ref_update updateData d of
                Inl e \<Rightarrow> w
              | Inr d' \<Rightarrow> w\<lparr>db := Some d'\<rparr>))"

definition shouldChangeTopic :: "int \<Rightarrow> OracleSession \<Rightarrow> bool" where
  "shouldChangeTopic currentTime session =
     (messageCount session mod 10 = 0 \<or>
      (case lastTopicChange session of
         None \<Rightarrow> False
       | Some t \<Rightarrow> t \<noteq> 0 \<and> currentTime - t > 300000))"

text \<open>\<open>session.topicHistory || []\<close>.\<close>

definition historyOf :: "OracleSession \<Rightarrow> string list" where
  "historyOf session = (case topicHistory session of None \<Rightarrow> [] | Some h \<Rightarrow> h)"

text \<open>
  \<open>currentTime\<close> is the reading of the clock in \<open>updateConversationTopic\<close>, \<open>now\<close>
  the one in the call of \<open>updateSession\<close> it makes.
\<close>

definition updateConversationTopic ::
    "int \<Rightarrow> int \<Rightarrow> OracleMessage \<Rightarrow> OracleService \<Rightarrow> OracleService" where
  "updateConversationTopic currentTime now newMessage w =
     (case getCurrentSession w of
        None \<Rightarrow> w
      | Some session \<Rightarrow>
          (let topics = extractTopics (message newMessage)
           in if shouldChangeTopic currentTime session \<and> length topics > 0 then
                (let newTopic = hd topics
                 in updateSession now
                      (SessionArg (session\<lparr>currentTopic := Some newTopic,
                         lastTopicChange := Some currentTime,
                         topicHistory := Some (slice_last 4 (historyOf session) @ [newTopic])\<rparr>))
                      w)
              else w))"

definition setConversationTopic ::
    "int \<Rightarrow> int \<Rightarrow> string \<Rightarrow> OracleService \<Rightarrow> OracleService" where
  "setConversationTopic changeTime now topic w =
     (case getCurrentSession w of
        None \<Rightarrow> w
      | Some session \<Rightarrow>
          updateSession now
            (SessionArg (session\<lparr>currentTopic := Some topic,
               lastTopicChange := Some changeTime,
               topicHistory := Some (slice_last 4 (historyOf session) @ [topic])\<rparr>))
            w)"

text \<open>
  \<open>forceTopicChange\<close>: \<open>k\<close> is \<open>Math.floor(Math.random() * newTopics.length)\<close>, a
  number below 8. The call of \<open>setConversationTopic\<close> is not awaited by the source; the
  model runs it to its end at once.
\<close>

definition newTopics :: "string list" where
  "newTopics =
    [''Analyze the technical indicators and chart patterns'',
     ''Discuss market sentiment and investor psychology'',
     ''Examine liquidity dynamics and trading volume patterns'',
     ''Explore price action and support/resistance levels'',
     ''Consider macro market conditions and external factors'',
     ''Evaluate token fundamentals and project development'',
     ''Assess risk management and position sizing strategies'',
     ''Review recent news and market catalysts'']"

definition forceTopicChange :: "nat \<Rightarrow> int \<Rightarrow> int \<Rightarrow> OracleService \<Rightarrow> OracleService" where
  "forceTopicChange k changeTime now w = setConversationTopic changeTime now (newTopics ! k) w"

definition isRepeating :: "OracleMessage list \<Rightarrow> bool" where
  "isRepeating recentMessages =
     (let lastThreeMessages = map message (slice_last 3 recentMessages)
      in length lastThreeMessages \<ge> 2 \<and>
         list_all (\<lambda>m. m = lastThreeMessages ! 0) lastThreeMessages)"

text \<open>
  \<open>buildEnhancedContext\<close> returns the prompt for the external generator, whose answer is
  an input of the model; what is modelled is the effect of the call on the service.
\<close>

definition buildEnhancedContext ::
    "nat \<Rightarrow> int \<Rightarrow> int \<Rightarrow> OracleMessage list \<Rightarrow> OracleService \<Rightarrow> OracleService" where
  "buildEnhancedContext k changeTime now recentMessages w =
     (if length recentMessages = 0 then w
      else if isRepeating recentMessages then forceTopicChange k changeTime now w
      else w)"

text \<open>
  What \<open>grokService.generateCompanionResponse\<close> does: it throws, or it returns a text
  or nothing (\<open>null\<close>, \<open>undefined\<close>).
\<close>

datatype GenResult = Throws | Returns "string option"

definition fallbackMessage :: "string \<Rightarrow> string" where
  "fallbackMessage a = ''The '' @ a @ '' contemplates the cosmic market patterns from the oracle realm.''"

text \<open>
  The inputs of one tick: the clock readings and random draws in the order the tick
  takes them, the generator's answer, and the id built for the new message.
\<close>

record TickEnv =
  t_select :: int
  draw :: real
  force_pick :: nat
  t_forced :: int
  t_forced_write :: int
  response :: GenResult
  new_id :: string
  t_message :: int
  t_update :: int
  t_topic :: int
  t_topic_write :: int

definition generateContextualResponse ::
    "TickEnv \<Rightarrow> string \<Rightarrow> OracleMessage list \<Rightarrow> OracleService \<Rightarrow> OracleMessage \<times> OracleService" where
  "generateContextualResponse env a recentMessages w =
     (let w' = buildEnhancedContext (force_pick env) (t_forced env) (t_forced_write env)
                 recentMessages w;
          txt = (case response env of
                   Throws \<Rightarrow> fallbackMessage a
                 | Returns None \<Rightarrow> fallbackMessage a
                 | Returns (Some t) \<Rightarrow> if t = [] then fallbackMessage a else t)
      in (\<lparr>msg_id = new_id env, agent = a, message = txt, timestamp = t_message env,
           msg_type = TypeMessage, sessionId = this_sessionId w\<rparr>, w'))"

text \<open>One tick of the timer.\<close>

definition generateNextMessage :: "TickEnv \<Rightarrow> OracleService \<Rightarrow> OracleService" where
  "generateNextMessage env w =
     (case getCurrentSession w of
        None \<Rightarrow> w
      | Some session \<Rightarrow>
          (let recentMessages = getRecentMessages 8 w;
               (nextAgent, idx) = determineNextAgent (t_select env) (draw env) recentMessages
                                    (this_lastAgentIndex w);
               w1 = w\<lparr>this_lastAgentIndex := idx\<rparr>;
               (newMessage, w2) = generateContextualResponse env nextAgent recentMessages w1;
               w3 = saveMessage newMessage w2;
               w4 = updateSession (t_update env) (MessageArg newMessage) w3
           in updateConversationTopic (t_topic env) (t_topic_write env) newMessage w4))"

text \<open>Ticks one after the other, each with its own inputs.\<close>

fun runTicks :: "TickEnv list \<Rightarrow> OracleService \<Rightarrow> OracleService" where
  "runTicks [] w = w"
| "runTicks (env # envs) w = runTicks envs (generateNextMessage env w)"

definition clearMessages :: "int \<Rightarrow> OracleService \<Rightarrow> OracleService" where
  "clearMessages now w =
     (case db w of
        None \<Rightarrow> w
      | Some d \<Rightarrow>
          (let d' = d\<lparr>oracle_messages := []\<rparr>
           in case ref_update
                  \<lparr>upd_lastAgentIndex = Absent, upd_messageCount = Value 0,
                   upd_lastMessageTime = Value now, upd_updatedAt = Value now,
                   upd_currentTopic = Undefined, upd_conversationTheme = Undefined,
                   upd_lastTopicChange = Undefined, upd_topicHistory = Value []\<rparr> d' of
                Inl e \<Rightarrow> w\<lparr>db := Some d'\<rparr>
              | Inr d'' \<Rightarrow> w\<lparr>db := Some d''\<rparr>))"

text \<open>\<open>startOracle\<close> and \<open>stopOracle\<close>, without the coin data feed.\<close>

definition startOracle :: "int \<Rightarrow> OracleService \<Rightarrow> OracleService" where
  "startOracle now w =
     (if isRunning w then w
      else (initializeSession now (w\<lparr>isRunning := True\<rparr>))\<lparr>interval := True\<rparr>)"

definition stopOracle :: "OracleService \<Rightarrow> OracleService" where
  "stopOracle w = w\<lparr>interval := False, isRunning := False\<rparr>"

subsection \<open>Sample runs\<close>

text \<open>
  A configured database with nothing in it, a service that has not been started, and the
  inputs of the ticks of a run in which the generator answers every time with a new text
  and no self-response is drawn.
\<close>

definition mkMessage :: "string \<Rightarrow> string \<Rightarrow> string \<Rightarrow> int \<Rightarrow> OracleMessage" where
  "mkMessage ident a body t =
     \<lparr>msg_id = ident, agent = a, message = body, timestamp = t, msg_type = TypeMessage,
      sessionId = ''oracle-session-2025''\<rparr>"

definition emptyService :: OracleService where
  "emptyService =
     \<lparr>isRunning = False, interval = False, this_lastAgentIndex = 0,
      this_sessionId = ''oracle-session-2025'',
      db = Some \<lparr>oracle_messages = [], oracle_session = None\<rparr>\<rparr>"

definition scenarioTick :: "nat \<Rightarrow> TickEnv" where
  "scenarioTick i =
     \<lparr>t_select = 8000 * int i + 8000, draw = 1 / 2, force_pick = 0,
      t_forced = 8000 * int i + 8001, t_forced_write = 8000 * int i + 8002,
      response = Returns (Some (''price update '' @ [char_of (48 + i)])),
      new_id = ''oracle-'' @ [char_of (48 + i)],
      t_message = 8000 * int i + 8900, t_update = 8000 * int i + 8901,
      t_topic = 8000 * int i + 8902, t_topic_write = 8000 * int i + 8903\<rparr>"

definition repeatTick :: "nat \<Rightarrow> TickEnv" where
  "repeatTick i = (scenarioTick i)\<lparr>response := Returns (Some ''The market holds.'')\<rparr>"

text \<open>The session that \<open>initializeSession\<close> writes at time 0.\<close>

definition freshSession :: OracleSession where
  "freshSession =
     \<lparr>session_id = Some ''oracle-session-2025'', lastAgentIndex = 0, messageCount = 0,
      lastMessageTime = Some 0, isActive = Some True, createdAt = Some 0, updatedAt = 0,
      currentTopic = None, conversationTheme = None, lastTopicChange = None,
      topicHistory = None\<rparr>"

section \<open>Properties\<close>

subsection \<open>Topic extraction\<close>

text \<open>\<open>includes_str\<close> is the contiguous-sublist test of the list library.\<close>

lemma startsWith_prefix: "startsWith xs ys = prefix ys xs"
  by (induction xs ys rule: startsWith.induct) auto

lemma includes_str_sublist: "includes_str s k = sublist k s"
  by (induction s) (simp_all add: startsWith_prefix sublist_Cons_right)

lemma toLowerCase_char_idem: "toLowerCase_char (toLowerCase_char c) = toLowerCase_char c"
proof -
  let ?n = "of_char c :: nat"
  show ?thesis
  proof (cases "65 \<le> ?n \<and> ?n \<le> 90")
    case True
    then have "(of_char (char_of (?n + 32)) :: nat) = ?n + 32"
      by simp
    then show ?thesis using True by (simp add: toLowerCase_char_def Let_def)
  next
    case False
    then show ?thesis unfolding toLowerCase_char_def Let_def by auto
  qed
qed

lemma toLowerCase_idem: "toLowerCase (toLowerCase s) = toLowerCase s"
  by (simp add: toLowerCase_def toLowerCase_char_idem)

lemma matchesTopic_iff:
  "matchesTopic s entry \<longleftrightarrow> (\<exists>keyword \<in> set (snd entry). sublist keyword s)"
  by (simp add: matchesTopic_def list_ex_iff includes_str_sublist)

lemma distinct_topicKeywords: "distinct (map fst topicKeywords)"
  by (simp add: topicKeywords_def)

lemma topic_names:
  "fst ` set topicKeywords =
     {''market_analysis'', ''holder_behavior'', ''technical_analysis'', ''fundamentals'',
      ''market_sentiment'', ''risk_assessment'', ''future_outlook''}"
  by (simp add: topicKeywords_def)

lemma general_not_a_category: "''general_market_discussion'' \<notin> fst ` set topicKeywords"
  unfolding topic_names by simp

lemma found_iff:
  assumes "distinct (map fst tk)" and "e \<in> set tk"
  shows "fst e \<in> set (map fst (filter P tk)) \<longleftrightarrow> P e"
proof
  assume "fst e \<in> set (map fst (filter P tk))"
  then obtain e' where e': "e' \<in> set tk" "P e'" "fst e' = fst e" by auto
  from assms e' have "e' = e" by (meson eq_key_imp_eq_value prod_eqI distinct_map inj_onD)
  with e' show "P e" by simp
next
  assume "P e"
  with assms(2) show "fst e \<in> set (map fst (filter P tk))" by auto
qed

lemma extractTopics_found:
  "filter (matchesTopic (toLowerCase a)) topicKeywords \<noteq> [] \<Longrightarrow>
   extractTopics a = map fst (filter (matchesTopic (toLowerCase a)) topicKeywords)"
  by (simp add: extractTopics_def Let_def)

lemma extractTopics_none:
  "filter (matchesTopic (toLowerCase a)) topicKeywords = [] \<Longrightarrow>
   extractTopics a = [''general_market_discussion'']"
  by (simp add: extractTopics_def Let_def)

text \<open>
  Claim C6. \<open>extractTopics\<close> is a function of the text alone; it sees the text only
  through its lower-case form, so two texts that differ in case alone get the same topics.
  A category of the table of seven is in the result exactly when one of its keywords
  occurs in the lower-cased text, the result names nothing outside the table but
  \<open>general_market_discussion\<close>, and it is exactly \<open>[general_market_discussion]\<close> when
  no keyword of any category occurs.
\<close>

theorem extractTopics_case_insensitive_table:
  "(toLowerCase a = toLowerCase b \<longrightarrow> extractTopics a = extractTopics b) \<and>
   extractTopics (toLowerCase a) = extractTopics a \<and>
   ((\<forall>entry \<in> set topicKeywords. \<forall>keyword \<in> set (snd entry).
        \<not> sublist keyword (toLowerCase a)) \<longleftrightarrow>
      extractTopics a = [''general_market_discussion'']) \<and>
   (\<forall>entry \<in> set topicKeywords.
      (\<exists>keyword \<in> set (snd entry). sublist keyword (toLowerCase a)) \<longleftrightarrow>
        fst entry \<in> set (extractTopics a)) \<and>
   set (extractTopics a) \<subseteq>
     {''market_analysis'', ''holder_behavior'', ''technical_analysis'', ''fundamentals'',
      ''market_sentiment'', ''risk_assessment'', ''future_outlook'',
      ''general_market_discussion''}"
proof -
  let ?P = "matchesTopic (toLowerCase a)"
  let ?found = "filter ?P topicKeywords"
  have c1: "toLowerCase a = toLowerCase b \<longrightarrow> extractTopics a = extractTopics b"
    by (simp add: extractTopics_def)
  have c2: "extractTopics (toLowerCase a) = extractTopics a"
    by (simp add: extractTopics_def toLowerCase_idem)
  have mem: "fst entry \<in> set (extractTopics a) \<longleftrightarrow> ?P entry"
    if e: "entry \<in> set topicKeywords" for entry
  proof (cases "?found = []")
    case True
    then have "\<not> ?P entry" using e by (auto simp: filter_empty_conv)
    moreover have "fst entry \<noteq> ''general_market_discussion''"
      using e general_not_a_category by force
    ultimately show ?thesis using True by (simp add: extractTopics_none)
  next
    case False
    then show ?thesis
      using found_iff [OF distinct_topicKeywords e, of ?P] by (simp add: extractTopics_found)
  qed
  have c4: "\<forall>entry \<in> set topicKeywords.
      (\<exists>keyword \<in> set (snd entry). sublist keyword (toLowerCase a)) \<longleftrightarrow>
        fst entry \<in> set (extractTopics a)"
    using mem by (simp add: matchesTopic_iff)
  have c3: "(\<forall>entry \<in> set topicKeywords. \<forall>keyword \<in> set (snd entry).
        \<not> sublist keyword (toLowerCase a)) \<longleftrightarrow>
      extractTopics a = [''general_market_discussion'']"
  proof
    assume "\<forall>entry \<in> set topicKeywords. \<forall>keyword \<in> set (snd entry).
        \<not> sublist keyword (toLowerCase a)"
    then have "?found = []" by (auto simp: filter_empty_conv matchesTopic_iff)
    then show "extractTopics a = [''general_market_discussion'']" by (rule extractTopics_none)
  next
    assume g: "extractTopics a = [''general_market_discussion'']"
    show "\<forall>entry \<in> set topicKeywords. \<forall>keyword \<in> set (snd entry).
        \<not> sublist keyword (toLowerCase a)"
    proof (intro ballI notI)
      fix entry keyword
      assume e: "entry \<in> set topicKeywords" and k: "keyword \<in> set (snd entry)"
        and s: "sublist keyword (toLowerCase a)"
      then have "fst entry \<in> set (extractTopics a)" using c4 by blast
      then have "fst entry = ''general_market_discussion''" using g by simp
      then show False using e general_not_a_category by force
    qed
  qed
  have c5: "set (extractTopics a) \<subseteq>
     {''market_analysis'', ''holder_behavior'', ''technical_analysis'', ''fundamentals'',
      ''market_sentiment'', ''risk_assessment'', ''future_outlook'',
      ''general_market_discussion''}"
  proof (cases "?found = []")
    case True
    then show ?thesis by (simp add: extractTopics_none)
  next
    case False
    have "set (map fst ?found) \<subseteq> fst ` set topicKeywords" by auto
    then show ?thesis using False unfolding topic_names by (auto simp: extractTopics_found)
  qed
  from c1 c2 c3 c4 c5 show ?thesis by blast
qed

theorem extractTopics_case_insensitive_table_witness:
  "toLowerCase ''The PRICE found Support'' = toLowerCase ''the price FOUND support'' \<and>
   extractTopics ''The PRICE found Support'' = extractTopics ''the price FOUND support'' \<and>
   extractTopics ''Hello there'' = [''general_market_discussion''] \<and>
   ''market_analysis'' \<in> set (extractTopics ''The PRICE found Support'')"
proof -
  have low: "toLowerCase ''The PRICE found Support'' = toLowerCase ''the price FOUND support''"
    by code_simp
  have none: "\<forall>entry \<in> set topicKeywords. \<forall>keyword \<in> set (snd entry).
      \<not> sublist keyword (toLowerCase ''Hello there'')"
    by code_simp
  have ent: "(''market_analysis'', [''market'', ''price'', ''volume'', ''liquidity'', ''trading''])
      \<in> set topicKeywords"
    by (simp add: topicKeywords_def)
  have sub: "\<exists>keyword \<in> set (snd (''market_analysis'',
      [''market'', ''price'', ''volume'', ''liquidity'', ''trading''])).
        sublist keyword (toLowerCase ''The PRICE found Support'')"
    by code_simp
  have "extractTopics ''The PRICE found Support'' = extractTopics ''the price FOUND support''"
    using extractTopics_case_insensitive_table
      [of "''The PRICE found Support''" "''the price FOUND support''"] low by blast
  moreover have "extractTopics ''Hello there'' = [''general_market_discussion'']"
    using extractTopics_case_insensitive_table [of "''Hello there''" "''Hello there''"] none
    by blast
  moreover have "fst (''market_analysis'',
      [''market'', ''price'', ''volume'', ''liquidity'', ''trading''])
        \<in> set (extractTopics ''The PRICE found Support'')"
    using extractTopics_case_insensitive_table
      [of "''The PRICE found Support''" "''the price FOUND support''"] ent sub by blast
  ultimately show ?thesis using low by simp
qed


subsection \<open>Choosing the next agent\<close>

lemma length_agents: "length agents = 4"
  by (simp add: agents_def)

lemma distinct_agents: "distinct agents"
  by (simp add: agents_def)

lemma next_index_moves: "(idx + 1) mod 4 \<noteq> (idx::nat)"
  by presburger

lemma rotation_moves:
  assumes "idx < 4"
  shows "agents ! ((idx + 1) mod 4) \<noteq> agents ! idx"
proof -
  have "(idx + 1) mod 4 < length agents" "idx < length agents"
    using assms by (simp_all add: length_agents)
  then show ?thesis
    using distinct_agents next_index_moves [of idx] by (simp add: nth_eq_iff_index_eq)
qed

lemma floor_seconds: "(d::int) div 1000 < 60 \<longleftrightarrow> d < 60000"
proof -
  have "d = 1000 * (d div 1000) + d mod 1000" by simp
  moreover have "0 \<le> d mod 1000" "d mod 1000 < 1000" by simp_all
  ultimately show ?thesis by linarith
qed

lemma isLooping_three:
  "isLooping (pre @ [m1, m2, m3]) \<longleftrightarrow> agent m1 = agent m3 \<and> agent m2 = agent m3"
  by (simp add: isLooping_def slice_last_def Let_def)

lemma determineNextAgent_loop:
  "recentMessages \<noteq> [] \<Longrightarrow> isLooping recentMessages \<Longrightarrow>
   determineNextAgent now r recentMessages idx = (agents ! ((idx + 1) mod 4), (idx + 1) mod 4)"
  by (simp add: determineNextAgent_def length_agents Let_def)

lemma determineNextAgent_self:
  "recentMessages \<noteq> [] \<Longrightarrow> \<not> isLooping recentMessages \<Longrightarrow>
   shouldSelfRespond now r recentMessages \<Longrightarrow>
   determineNextAgent now r recentMessages idx = (agent (last recentMessages), idx)"
  by (simp add: determineNextAgent_def)

lemma determineNextAgent_rotate:
  "recentMessages \<noteq> [] \<Longrightarrow> \<not> shouldSelfRespond now r recentMessages \<Longrightarrow>
   determineNextAgent now r recentMessages idx = (agents ! ((idx + 1) mod 4), (idx + 1) mod 4)"
  by (simp add: determineNextAgent_def length_agents Let_def)

lemma shouldSelfRespond_iff:
  "shouldSelfRespond now r recentMessages \<longleftrightarrow>
     now - timestamp (last recentMessages) < 60000 \<and> r < 15 / 100"
  by (simp add: shouldSelfRespond_def timeSinceLastMessage_def floor_seconds)

text \<open>
  Claim C4, as the code has it. When the history ends in three messages, the loop guard
  fires exactly when the three are from one agent. When it fires, the selector returns
  \<open>agents[(lastAgentIndex + 1) mod 4]\<close> and that index is the new rotation index. The
  agent returned is another one than the agent of the three messages whenever the rotation
  index points at that agent, that is whenever \<open>agents[lastAgentIndex]\<close> sent them.
\<close>

theorem loop_guard_three_in_a_row:
  assumes "recentMessages = pre @ [m1, m2, m3]"
  shows "(isLooping recentMessages \<longleftrightarrow> agent m1 = agent m3 \<and> agent m2 = agent m3) \<and>
         (isLooping recentMessages \<longrightarrow>
            determineNextAgent now r recentMessages idx =
              (agents ! ((idx + 1) mod 4), (idx + 1) mod 4) \<and>
            (idx < 4 \<and> agents ! idx = agent m3 \<longrightarrow>
               fst (determineNextAgent now r recentMessages idx) \<noteq> agent m3))"
proof -
  have ne: "recentMessages \<noteq> []" using assms by simp
  have a: "isLooping recentMessages \<longleftrightarrow> agent m1 = agent m3 \<and> agent m2 = agent m3"
    unfolding assms by (rule isLooping_three)
  have b: "determineNextAgent now r recentMessages idx =
      (agents ! ((idx + 1) mod 4), (idx + 1) mod 4)" if "isLooping recentMessages"
    using ne that by (rule determineNextAgent_loop)
  have c: "fst (determineNextAgent now r recentMessages idx) \<noteq> agent m3"
    if "isLooping recentMessages" "idx < 4" "agents ! idx = agent m3"
    using b [OF that(1)] rotation_moves [OF that(2)] that(3) by simp
  from a b c show ?thesis by blast
qed

theorem loop_guard_three_in_a_row_witness:
  "isLooping [mkMessage ''oracle-0'' ''analyzer'' ''a'' 1000,
              mkMessage ''oracle-1'' ''analyzer'' ''b'' 9000,
              mkMessage ''oracle-2'' ''analyzer'' ''c'' 17000] \<and>
   determineNextAgent 25000 (1 / 2)
     [mkMessage ''oracle-0'' ''analyzer'' ''a'' 1000,
      mkMessage ''oracle-1'' ''analyzer'' ''b'' 9000,
      mkMessage ''oracle-2'' ''analyzer'' ''c'' 17000] 0 = (''predictor'', 1) \<and>
   fst (determineNextAgent 25000 (1 / 2)
     [mkMessage ''oracle-0'' ''analyzer'' ''a'' 1000,
      mkMessage ''oracle-1'' ''analyzer'' ''b'' 9000,
      mkMessage ''oracle-2'' ''analyzer'' ''c'' 17000] 0) \<noteq> ''analyzer''"
proof -
  let ?m1 = "mkMessage ''oracle-0'' ''analyzer'' ''a'' 1000"
  let ?m2 = "mkMessage ''oracle-1'' ''analyzer'' ''b'' 9000"
  let ?m3 = "mkMessage ''oracle-2'' ''analyzer'' ''c'' 17000"
  have h: "[?m1, ?m2, ?m3] = [] @ [?m1, ?m2, ?m3]" by simp
  have ag: "agent ?m1 = agent ?m3 \<and> agent ?m2 = agent ?m3" "agent ?m3 = ''analyzer''"
    by (simp_all add: mkMessage_def)
  have ix: "(0::nat) < 4 \<and> agents ! 0 = agent ?m3" "agents ! ((0 + 1) mod 4) = ''predictor''"
    by (simp_all add: mkMessage_def agents_def)
  from loop_guard_three_in_a_row [OF h, of 25000 "1 / 2" 0] ag ix
  show ?thesis by simp
qed

text \<open>
  Claim C4, as the claim states it, fails twice. A history of one message makes the loop
  guard fire: with a draw below 0.15 one second after the message, the self-response
  branch would return the analyzer and keep index 0, and the selector returns the
  predictor with index 1. And with the rotation index at 3, three messages of the
  analyzer in a row make the selector return the analyzer again.
\<close>

theorem loop_guard_counterexample:
  "length [mkMessage ''oracle-0'' ''analyzer'' ''price update 0'' 8900] < 3 \<and>
   isLooping [mkMessage ''oracle-0'' ''analyzer'' ''price update 0'' 8900] \<and>
   determineNextAgent 16000 (1 / 10) [mkMessage ''oracle-0'' ''analyzer'' ''price update 0'' 8900] 0
     = (''predictor'', 1) \<and>
   isLooping [mkMessage ''oracle-0'' ''analyzer'' ''a'' 1000,
              mkMessage ''oracle-1'' ''analyzer'' ''b'' 9000,
              mkMessage ''oracle-2'' ''analyzer'' ''c'' 17000] \<and>
   determineNextAgent 25000 (1 / 2)
     [mkMessage ''oracle-0'' ''analyzer'' ''a'' 1000,
      mkMessage ''oracle-1'' ''analyzer'' ''b'' 9000,
      mkMessage ''oracle-2'' ''analyzer'' ''c'' 17000] 3 = (''analyzer'', 0)"
  by (simp add: isLooping_def slice_last_def determineNextAgent_def mkMessage_def agents_def)

text \<open>
  Claim C5. On a history that is not empty the rotation index is left as it was exactly
  when the self-response branch is taken: the loop guard did not fire, less than 60
  seconds (60000 ms) have passed since the last message and the draw is below 0.15. The
  selector then returns the agent of the last message. From 60 seconds on the selector
  returns the next agent of the roster and stores its index, whatever the draw.
\<close>

theorem self_response_within_a_minute:
  assumes "recentMessages \<noteq> []"
  shows "(snd (determineNextAgent now r recentMessages idx) = idx \<longleftrightarrow>
            \<not> isLooping recentMessages \<and> now - timestamp (last recentMessages) < 60000 \<and>
            r < 15 / 100) \<and>
         (\<not> isLooping recentMessages \<and> now - timestamp (last recentMessages) < 60000 \<and>
            r < 15 / 100 \<longrightarrow>
            determineNextAgent now r recentMessages idx = (agent (last recentMessages), idx)) \<and>
         (60000 \<le> now - timestamp (last recentMessages) \<longrightarrow>
            determineNextAgent now r recentMessages idx =
              (agents ! ((idx + 1) mod 4), (idx + 1) mod 4))"
proof -
  note ne = next_index_moves [of idx]
  let ?self = "\<not> isLooping recentMessages \<and> shouldSelfRespond now r recentMessages"
  have taken: "determineNextAgent now r recentMessages idx = (agent (last recentMessages), idx)"
    if "?self"
    using assms(1) that by (simp add: determineNextAgent_self)
  have other: "determineNextAgent now r recentMessages idx =
      (agents ! ((idx + 1) mod 4), (idx + 1) mod 4)" if "\<not> ?self"
  proof (cases "isLooping recentMessages")
    case True
    with assms(1) show ?thesis by (rule determineNextAgent_loop)
  next
    case False
    with that have "\<not> shouldSelfRespond now r recentMessages" by simp
    with assms(1) show ?thesis by (rule determineNextAgent_rotate)
  qed
  have a: "snd (determineNextAgent now r recentMessages idx) = idx \<longleftrightarrow> ?self"
  proof (cases "?self")
    case True
    then show ?thesis using taken by simp
  next
    case False
    then show ?thesis using other [OF False] ne by simp
  qed
  have late: "\<not> ?self" if "60000 \<le> now - timestamp (last recentMessages)"
    using that by (simp add: shouldSelfRespond_iff)
  from a taken other late show ?thesis unfolding shouldSelfRespond_iff by blast
qed

theorem self_response_within_a_minute_witness:
  "[mkMessage ''oracle-0'' ''analyzer'' ''a'' 1000,
    mkMessage ''oracle-1'' ''predictor'' ''b'' 9000] \<noteq> [] \<and>
   determineNextAgent 17000 (1 / 10)
     [mkMessage ''oracle-0'' ''analyzer'' ''a'' 1000,
      mkMessage ''oracle-1'' ''predictor'' ''b'' 9000] 1 = (''predictor'', 1) \<and>
   determineNextAgent 69000 (1 / 10)
     [mkMessage ''oracle-0'' ''analyzer'' ''a'' 1000,
      mkMessage ''oracle-1'' ''predictor'' ''b'' 9000] 1 = (''quantum-eraser'', 2)"
proof -
  let ?h = "[mkMessage ''oracle-0'' ''analyzer'' ''a'' 1000,
             mkMessage ''oracle-1'' ''predictor'' ''b'' 9000]"
  have ne: "?h \<noteq> []" by simp
  have nl: "\<not> isLooping ?h"
    by (simp add: isLooping_def slice_last_def mkMessage_def)
  have early: "17000 - timestamp (last ?h) < 60000" "(1 / 10 :: real) < 15 / 100"
    and late: "60000 \<le> 69000 - timestamp (last ?h)"
    and ag: "agent (last ?h) = ''predictor''" "agents ! ((1 + 1) mod 4) = ''quantum-eraser''"
    by (simp_all add: mkMessage_def agents_def)
  from self_response_within_a_minute [OF ne, of 17000 "1 / 10"]
    self_response_within_a_minute [OF ne, of 69000 "1 / 10"] nl early late ag
  show ?thesis by simp
qed

subsection \<open>The session update\<close>

lemma updateSession_None: "db w = None \<Longrightarrow> updateSession now arg w = w"
  by (simp add: updateSession_def)

lemma updateSession_Some:
  assumes "db w = Some d"
  shows "updateSession now arg w =
     w\<lparr>db := Some (d\<lparr>oracle_session :=
       (case oracle_session d of
          Some s \<Rightarrow>
            Some (s\<lparr>lastAgentIndex := this_lastAgentIndex w, messageCount := messageCount s + 1,
                   lastMessageTime :=
                     merge_opt (deleteUndefined (arg_timestamp arg)) (lastMessageTime s),
                   updatedAt := now\<rparr>)
        | None \<Rightarrow>
            Some \<lparr>session_id = None, lastAgentIndex = this_lastAgentIndex w, messageCount = 1,
                  lastMessageTime = merge_opt (deleteUndefined (arg_timestamp arg)) None,
                  isActive = None, createdAt = None, updatedAt = now, currentTopic = None,
                  conversationTheme = None, lastTopicChange = None,
                  topicHistory = None\<rparr>)\<rparr>)\<rparr>"
proof -
  have nu: "\<not> isUndefined (deleteUndefined f)" for f :: "'a field"
    by (cases f) simp_all
  show ?thesis
    using assms
    by (simp add: updateSession_def getCurrentSession_def ref_update_def hasUndefined_def nu
        mergeSession_def newNode_def Let_def split: option.splits)
qed

lemma updateSession_session:
  assumes "getCurrentSession w = Some s"
  shows "getCurrentSession (updateSession now arg w) =
     Some (s\<lparr>lastAgentIndex := this_lastAgentIndex w, messageCount := messageCount s + 1,
            lastMessageTime := merge_opt (deleteUndefined (arg_timestamp arg)) (lastMessageTime s),
            updatedAt := now\<rparr>)"
proof -
  from assms obtain d where d: "db w = Some d" "oracle_session d = Some s"
    by (auto simp: getCurrentSession_def split: option.splits)
  show ?thesis by (simp add: updateSession_Some [OF d(1)] d(2) getCurrentSession_def)
qed

lemma updateSession_messages:
  "map_option oracle_messages (db (updateSession now arg w)) = map_option oracle_messages (db w)"
proof (cases "db w")
  case None
  then show ?thesis by (simp add: updateSession_None)
next
  case (Some d)
  then show ?thesis by (simp add: updateSession_Some [OF Some])
qed

lemma updateSession_memory:
  "this_lastAgentIndex (updateSession now arg w) = this_lastAgentIndex w \<and>
   this_sessionId (updateSession now arg w) = this_sessionId w \<and>
   isRunning (updateSession now arg w) = isRunning w \<and>
   interval (updateSession now arg w) = interval w"
proof (cases "db w")
  case None
  then show ?thesis by (simp add: updateSession_None)
next
  case (Some d)
  then show ?thesis by (simp add: updateSession_Some [OF Some])
qed

lemma updateSession_topic_fields:
  "Option.bind (getCurrentSession (updateSession now arg w)) currentTopic =
     Option.bind (getCurrentSession w) currentTopic \<and>
   Option.bind (getCurrentSession (updateSession now arg w)) conversationTheme =
     Option.bind (getCurrentSession w) conversationTheme \<and>
   Option.bind (getCurrentSession (updateSession now arg w)) lastTopicChange =
     Option.bind (getCurrentSession w) lastTopicChange \<and>
   Option.bind (getCurrentSession (updateSession now arg w)) topicHistory =
     Option.bind (getCurrentSession w) topicHistory"
proof (cases "db w")
  case None
  then show ?thesis by (simp add: updateSession_None)
next
  case (Some d)
  then show ?thesis
    by (cases "oracle_session d") (simp_all add: updateSession_Some [OF Some] getCurrentSession_def)
qed

lemma setConversationTopic_session:
  assumes "getCurrentSession w = Some s"
  shows "getCurrentSession (setConversationTopic changeTime now topic w) =
     Some (s\<lparr>lastAgentIndex := this_lastAgentIndex w, messageCount := messageCount s + 1,
            updatedAt := now\<rparr>)"
  using assms by (simp add: setConversationTopic_def updateSession_session)

lemma updateConversationTopic_session:
  assumes "getCurrentSession w = Some s"
  shows "getCurrentSession (updateConversationTopic currentTime now newMessage w) =
     (if shouldChangeTopic currentTime s
      then Some (s\<lparr>lastAgentIndex := this_lastAgentIndex w, messageCount := messageCount s + 1,
            updatedAt := now\<rparr>)
      else Some s)"
proof -
  have "length (extractTopics (message newMessage)) > 0"
    by (simp add: extractTopics_def Let_def)
  then show ?thesis
    using assms by (simp add: updateConversationTopic_def updateSession_session Let_def)
qed

text \<open>
  Claim C10. \<open>updateSession\<close> leaves \<open>currentTopic\<close>, \<open>conversationTheme\<close>,
  \<open>lastTopicChange\<close> and \<open>topicHistory\<close> of the stored session as they were, whatever
  its argument holds, and it leaves the stored messages alone. The session after the call
  differs from the one before in at most \<open>lastAgentIndex\<close>, \<open>messageCount\<close>,
  \<open>lastMessageTime\<close> and \<open>updatedAt\<close>; the same holds for the calls made through
  \<open>setConversationTopic\<close> and \<open>updateConversationTopic\<close>, which pass a session with
  new topic fields.
\<close>

theorem updateSession_frame:
  "Option.bind (getCurrentSession (updateSession now arg w)) currentTopic =
     Option.bind (getCurrentSession w) currentTopic \<and>
   Option.bind (getCurrentSession (updateSession now arg w)) conversationTheme =
     Option.bind (getCurrentSession w) conversationTheme \<and>
   Option.bind (getCurrentSession (updateSession now arg w)) lastTopicChange =
     Option.bind (getCurrentSession w) lastTopicChange \<and>
   Option.bind (getCurrentSession (updateSession now arg w)) topicHistory =
     Option.bind (getCurrentSession w) topicHistory \<and>
   map_option oracle_messages (db (updateSession now arg w)) = map_option oracle_messages (db w) \<and>
   (getCurrentSession w = Some s \<longrightarrow>
      (\<exists>s'. getCurrentSession (updateSession now arg w) = Some s' \<and>
         s' = s\<lparr>lastAgentIndex := lastAgentIndex s', messageCount := messageCount s',
                 lastMessageTime := lastMessageTime s', updatedAt := updatedAt s'\<rparr>) \<and>
      (\<exists>s'. getCurrentSession (setConversationTopic changeTime now topic w) = Some s' \<and>
         s' = s\<lparr>lastAgentIndex := lastAgentIndex s', messageCount := messageCount s',
                 lastMessageTime := lastMessageTime s', updatedAt := updatedAt s'\<rparr>) \<and>
      (\<exists>s'. getCurrentSession (updateConversationTopic changeTime now newMessage w) = Some s' \<and>
         s' = s\<lparr>lastAgentIndex := lastAgentIndex s', messageCount := messageCount s',
                 lastMessageTime := lastMessageTime s', updatedAt := updatedAt s'\<rparr>))"
proof -
  have a: "\<exists>s'. getCurrentSession (updateSession now arg w) = Some s' \<and>
         s' = s\<lparr>lastAgentIndex := lastAgentIndex s', messageCount := messageCount s',
                 lastMessageTime := lastMessageTime s', updatedAt := updatedAt s'\<rparr>"
    if "getCurrentSession w = Some s"
    by (simp add: updateSession_session [OF that])
  have b: "\<exists>s'. getCurrentSession (setConversationTopic changeTime now topic w) = Some s' \<and>
         s' = s\<lparr>lastAgentIndex := lastAgentIndex s', messageCount := messageCount s',
                 lastMessageTime := lastMessageTime s', updatedAt := updatedAt s'\<rparr>"
    if "getCurrentSession w = Some s"
    by (simp add: setConversationTopic_session [OF that])
  have c: "\<exists>s'. getCurrentSession (updateConversationTopic changeTime now newMessage w) = Some s' \<and>
         s' = s\<lparr>lastAgentIndex := lastAgentIndex s', messageCount := messageCount s',
                 lastMessageTime := lastMessageTime s', updatedAt := updatedAt s'\<rparr>"
    if "getCurrentSession w = Some s"
    by (simp add: updateConversationTopic_session [OF that])
  from a b c updateSession_topic_fields [of now arg w] updateSession_messages [of now arg w]
  show ?thesis by blast
qed


theorem updateSession_frame_witness:
  "getCurrentSession (startOracle 0 emptyService) = Some freshSession \<and>
   Option.bind (getCurrentSession (updateSession 5
      (SessionArg (freshSession\<lparr>currentTopic := Some ''risk_assessment'',
         lastTopicChange := Some 5, topicHistory := Some [''risk_assessment'']\<rparr>))
      (startOracle 0 emptyService))) currentTopic = None \<and>
   (\<exists>s'. getCurrentSession (updateSession 5
      (SessionArg (freshSession\<lparr>currentTopic := Some ''risk_assessment'',
         lastTopicChange := Some 5, topicHistory := Some [''risk_assessment'']\<rparr>))
      (startOracle 0 emptyService)) = Some s' \<and>
      s' = freshSession\<lparr>lastAgentIndex := lastAgentIndex s', messageCount := messageCount s',
             lastMessageTime := lastMessageTime s', updatedAt := updatedAt s'\<rparr>)"
proof -
  have h: "getCurrentSession (startOracle 0 emptyService) = Some freshSession"
    by (simp add: startOracle_def emptyService_def initializeSession_def getCurrentSession_def
        freshSession_def)
  have t: "Option.bind (getCurrentSession (startOracle 0 emptyService)) currentTopic = None"
    by (simp add: h freshSession_def)
  from updateSession_frame [of 5 "SessionArg (freshSession\<lparr>currentTopic := Some ''risk_assessment'',
         lastTopicChange := Some 5, topicHistory := Some [''risk_assessment'']\<rparr>)"
      "startOracle 0 emptyService" freshSession] h t
  show ?thesis by simp
qed

subsection \<open>The tick\<close>

lemma updateConversationTopic_messages:
  "map_option oracle_messages (db (updateConversationTopic currentTime now newMessage w)) =
     map_option oracle_messages (db w)"
  by (simp add: updateConversationTopic_def updateSession_messages Let_def split: option.splits)

lemma setConversationTopic_messages:
  "map_option oracle_messages (db (setConversationTopic changeTime now topic w)) =
     map_option oracle_messages (db w)"
  by (simp add: setConversationTopic_def updateSession_messages split: option.splits)

lemma buildEnhancedContext_messages:
  "map_option oracle_messages (db (buildEnhancedContext k changeTime now recentMessages w)) =
     map_option oracle_messages (db w)"
  by (simp add: buildEnhancedContext_def forceTopicChange_def setConversationTopic_messages)

lemma saveMessage_messages:
  "map_option oracle_messages (db (saveMessage m w)) =
     map_option (AList.update (msg_id m) m) (map_option oracle_messages (db w))"
  by (simp add: saveMessage_def split: option.splits)

lemma fallbackMessage_names_agent:
  "fallbackMessage a \<noteq> [] \<and> sublist a (fallbackMessage a)"
proof -
  have "sublist a (''The '' @ a @ '' contemplates the cosmic market patterns from the oracle realm.'')"
    unfolding sublist_def by blast
  then show ?thesis by (simp add: fallbackMessage_def)
qed

text \<open>
  Claim C7. A tick that finds a session stores a message under the new id, from the agent
  the selector chose, and its text is never empty. When the generator throws or returns
  nothing or the empty text, the text is the fallback sentence, which contains the name
  of the agent. The tick is a total function of the service: it has a result for every
  answer of the generator.
\<close>

theorem fallback_on_generator_failure:
  assumes "getCurrentSession w = Some s"
  shows "\<exists>d' m. db (generateNextMessage env w) = Some d' \<and>
           map_of (oracle_messages d') (new_id env) = Some m \<and>
           agent m = fst (determineNextAgent (t_select env) (draw env) (getRecentMessages 8 w)
                            (this_lastAgentIndex w)) \<and>
           message m \<noteq> [] \<and>
           (response env = Throws \<or> response env = Returns None \<or>
              response env = Returns (Some []) \<longrightarrow>
              message m = fallbackMessage (agent m) \<and> sublist (agent m) (message m))"
proof -
  define recent where "recent = getRecentMessages 8 w"
  define a where "a = fst (determineNextAgent (t_select env) (draw env) recent (this_lastAgentIndex w))"
  define idx where "idx = snd (determineNextAgent (t_select env) (draw env) recent (this_lastAgentIndex w))"
  define w1 where "w1 = w\<lparr>this_lastAgentIndex := idx\<rparr>"
  define m where "m = fst (generateContextualResponse env a recent w1)"
  define w2 where "w2 = snd (generateContextualResponse env a recent w1)"
  define w3 where "w3 = saveMessage m w2"
  define w4 where "w4 = updateSession (t_update env) (MessageArg m) w3"
  have run: "generateNextMessage env w =
      updateConversationTopic (t_topic env) (t_topic_write env) m w4"
    using assms
    by (simp add: generateNextMessage_def Let_def split_beta recent_def a_def idx_def w1_def
        m_def w2_def w3_def w4_def)
  from assms obtain d where d: "db w = Some d"
    by (auto simp: getCurrentSession_def split: option.splits)
  have w2: "w2 = buildEnhancedContext (force_pick env) (t_forced env) (t_forced_write env) recent w1"
    by (simp add: w2_def generateContextualResponse_def Let_def)
  have m2: "map_option oracle_messages (db w2) = Some (oracle_messages d)"
    unfolding w2 buildEnhancedContext_messages by (simp add: w1_def d)
  have m3: "map_option oracle_messages (db w3) =
      Some (AList.update (msg_id m) m (oracle_messages d))"
    unfolding w3_def saveMessage_messages m2 by simp
  have m4: "map_option oracle_messages (db w4) =
      Some (AList.update (msg_id m) m (oracle_messages d))"
    unfolding w4_def updateSession_messages by (rule m3)
  have "map_option oracle_messages (db (generateNextMessage env w)) =
      Some (AList.update (msg_id m) m (oracle_messages d))"
    unfolding run updateConversationTopic_messages by (rule m4)
  then obtain d' where d': "db (generateNextMessage env w) = Some d'"
      "oracle_messages d' = AList.update (msg_id m) m (oracle_messages d)"
    by auto
  have id: "msg_id m = new_id env" and ag: "agent m = a"
    by (simp_all add: m_def generateContextualResponse_def Let_def)
  have body: "message m =
      (case response env of
         Throws \<Rightarrow> fallbackMessage a
       | Returns None \<Rightarrow> fallbackMessage a
       | Returns (Some t) \<Rightarrow> if t = [] then fallbackMessage a else t)"
    by (simp add: m_def generateContextualResponse_def Let_def)
  have nonempty: "message m \<noteq> []"
    using fallbackMessage_names_agent [of a]
    by (simp add: body split: GenResult.splits option.splits)
  have fb: "message m = fallbackMessage (agent m) \<and> sublist (agent m) (message m)"
    if "response env = Throws \<or> response env = Returns None \<or> response env = Returns (Some [])"
    using that fallbackMessage_names_agent [of a] by (auto simp: body ag)
  have "map_of (oracle_messages d') (new_id env) = Some m"
    by (simp add: d'(2) id [symmetric] update_conv')
  with d'(1) ag nonempty fb show ?thesis
    unfolding a_def recent_def by blast
qed

theorem fallback_on_generator_failure_witness:
  "getCurrentSession (startOracle 0 emptyService) = Some freshSession \<and>
   response ((scenarioTick 0)\<lparr>response := Returns (Some [])\<rparr>) = Returns (Some []) \<and>
   (\<exists>d' m. db (generateNextMessage ((scenarioTick 0)\<lparr>response := Returns (Some [])\<rparr>)
                 (startOracle 0 emptyService)) = Some d' \<and>
      map_of (oracle_messages d') ''oracle-0'' = Some m \<and> agent m = ''analyzer'' \<and>
      message m =
        ''The analyzer contemplates the cosmic market patterns from the oracle realm.'')"
proof -
  let ?env = "(scenarioTick 0)\<lparr>response := Returns (Some [])\<rparr>"
  let ?w = "startOracle 0 emptyService"
  have h: "getCurrentSession ?w = Some freshSession"
    by (simp add: startOracle_def emptyService_def initializeSession_def getCurrentSession_def
        freshSession_def)
  have r: "response ?env = Returns (Some [])" by simp
  have i: "new_id ?env = ''oracle-0''" by code_simp
  have a: "fst (determineNextAgent (t_select ?env) (draw ?env) (getRecentMessages 8 ?w)
      (this_lastAgentIndex ?w)) = ''analyzer''"
    by (simp add: startOracle_def emptyService_def initializeSession_def getRecentMessages_def
        slice_last_def determineNextAgent_def agents_def)
  from fallback_on_generator_failure [OF h, of ?env] obtain d' m where
    dm: "db (generateNextMessage ?env ?w) = Some d'"
      "map_of (oracle_messages d') (new_id ?env) = Some m"
      "agent m = ''analyzer''" "message m = fallbackMessage (agent m)"
    unfolding a using r by blast
  have "message m = ''The analyzer contemplates the cosmic market patterns from the oracle realm.''"
    by (simp add: dm(3,4) fallbackMessage_def)
  with dm h r i show ?thesis by auto
qed


subsection \<open>Topic maintenance\<close>

text \<open>
  No path of the service writes a topic field: the two callers that build a session with
  a new topic hand it to \<open>updateSession\<close>, which sends none of it to the store. So a
  tick leaves \<open>currentTopic\<close> as it found it, whatever its inputs.
\<close>

lemma setConversationTopic_topic_fields:
  "Option.bind (getCurrentSession (setConversationTopic changeTime now topic w)) currentTopic =
     Option.bind (getCurrentSession w) currentTopic"
  by (simp add: setConversationTopic_def updateSession_topic_fields split: option.splits)

lemma buildEnhancedContext_topic:
  "Option.bind (getCurrentSession (buildEnhancedContext k changeTime now recentMessages w))
     currentTopic = Option.bind (getCurrentSession w) currentTopic"
  by (simp add: buildEnhancedContext_def forceTopicChange_def setConversationTopic_topic_fields)

lemma updateConversationTopic_topic:
  "Option.bind (getCurrentSession (updateConversationTopic currentTime now newMessage w))
     currentTopic = Option.bind (getCurrentSession w) currentTopic"
  by (simp add: updateConversationTopic_def updateSession_topic_fields Let_def
      split: option.splits)

lemma saveMessage_session: "getCurrentSession (saveMessage m w) = getCurrentSession w"
  by (simp add: saveMessage_def getCurrentSession_def split: option.splits)

lemma generateNextMessage_topic:
  "Option.bind (getCurrentSession (generateNextMessage env w)) currentTopic =
     Option.bind (getCurrentSession w) currentTopic"
proof (cases "getCurrentSession w")
  case None
  then show ?thesis by (simp add: generateNextMessage_def)
next
  case (Some s)
  have "getCurrentSession (w\<lparr>this_lastAgentIndex := i\<rparr>) = getCurrentSession w" for i
    by (simp add: getCurrentSession_def)
  then show ?thesis
    using Some
    by (simp add: generateNextMessage_def Let_def split_beta updateConversationTopic_topic
        updateSession_topic_fields saveMessage_session generateContextualResponse_def
        buildEnhancedContext_topic)
qed

text \<open>
  Claim C1, at the tenth tick after a start on an empty store. The session counts 9
  before the tick, so the session update of the tick makes it 10 and topic maintenance
  finds \<open>messageCount % 10 == 0\<close>; the first topic of the new message is
  \<open>market_analysis\<close>. Topic maintenance does run its update (the count is 11 after the
  tick), and \<open>currentTopic\<close>, \<open>lastTopicChange\<close> and \<open>topicHistory\<close> are still not
  set.
\<close>

theorem tenth_tick_keeps_topic:
  "map_option messageCount (getCurrentSession
      (runTicks (map scenarioTick [0..<9]) (startOracle 0 emptyService))) = Some 9 \<and>
   response (scenarioTick 9) = Returns (Some ''price update 9'') \<and>
   extractTopics ''price update 9'' = [''market_analysis''] \<and>
   map_option messageCount (getCurrentSession
      (runTicks (map scenarioTick [0..<10]) (startOracle 0 emptyService))) = Some 11 \<and>
   Option.bind (getCurrentSession
      (runTicks (map scenarioTick [0..<10]) (startOracle 0 emptyService))) currentTopic = None \<and>
   Option.bind (getCurrentSession
      (runTicks (map scenarioTick [0..<10]) (startOracle 0 emptyService))) lastTopicChange = None \<and>
   Option.bind (getCurrentSession
      (runTicks (map scenarioTick [0..<10]) (startOracle 0 emptyService))) topicHistory = None"
  by code_simp

text \<open>
  Claim C2, on the same run. After nine ticks the session counts 9 messages and the store
  holds 9. The tenth tick stores one message and raises the count twice, once in the
  session update and once more in the call of \<open>updateSession\<close> from topic maintenance:
  the session counts 11 and the store holds 10.
\<close>

theorem ten_ticks_count_eleven:
  "map_option messageCount (getCurrentSession
      (runTicks (map scenarioTick [0..<9]) (startOracle 0 emptyService))) = Some 9 \<and>
   map_option (length \<circ> oracle_messages) (db
      (runTicks (map scenarioTick [0..<9]) (startOracle 0 emptyService))) = Some 9 \<and>
   map_option messageCount (getCurrentSession
      (runTicks (map scenarioTick [0..<10]) (startOracle 0 emptyService))) = Some 11 \<and>
   map_option (length \<circ> oracle_messages) (db
      (runTicks (map scenarioTick [0..<10]) (startOracle 0 emptyService))) = Some 10"
  by code_simp

text \<open>
  Claim C3, after three ticks in which the generator gave the same text. The last three
  messages are identical, \<open>buildEnhancedContext\<close> forces a topic change to the topic
  drawn, and \<open>currentTopic\<close> is what it was before the call: not set.
\<close>

theorem repeated_text_keeps_topic:
  "map message (getRecentMessages 8 (runTicks (map repeatTick [0..<3]) (startOracle 0 emptyService)))
     = [''The market holds.'', ''The market holds.'', ''The market holds.''] \<and>
   isRepeating (getRecentMessages 8 (runTicks (map repeatTick [0..<3]) (startOracle 0 emptyService))) \<and>
   newTopics ! 1 = ''Discuss market sentiment and investor psychology'' \<and>
   Option.bind (getCurrentSession (runTicks (map repeatTick [0..<3]) (startOracle 0 emptyService)))
     currentTopic = None \<and>
   Option.bind (getCurrentSession
     (buildEnhancedContext 1 32001 32002
        (getRecentMessages 8 (runTicks (map repeatTick [0..<3]) (startOracle 0 emptyService)))
        (runTicks (map repeatTick [0..<3]) (startOracle 0 emptyService)))) currentTopic = None"
  by code_simp

subsection \<open>Clearing the messages\<close>

text \<open>
  The object that \<open>clearMessages\<close> hands to \<open>update\<close> holds undefined values, so the
  update is refused and the catch block ends the call: the messages are removed and the
  session stays as it was. A second call changes nothing more.
\<close>

lemma clearMessages_removes_messages_only:
  "clearMessages now w = w\<lparr>db := map_option (\<lambda>d. d\<lparr>oracle_messages := []\<rparr>) (db w)\<rparr>"
  by (simp add: clearMessages_def ref_update_def hasUndefined_def split: option.splits)

lemma clearMessages_twice: "clearMessages t2 (clearMessages t1 w) = clearMessages t1 w"
  by (cases "db w") (simp_all add: clearMessages_removes_messages_only)

text \<open>
  Claim C8, after three ticks from a start on an empty store: \<open>clearMessages\<close> removes
  the three messages and the session still counts 3.
\<close>

theorem clearMessages_keeps_count:
  "map_option messageCount (getCurrentSession
      (runTicks (map scenarioTick [0..<3]) (startOracle 0 emptyService))) = Some 3 \<and>
   map_option oracle_messages (db
      (clearMessages 30000 (runTicks (map scenarioTick [0..<3]) (startOracle 0 emptyService))))
     = Some [] \<and>
   map_option messageCount (getCurrentSession
      (clearMessages 30000 (runTicks (map scenarioTick [0..<3]) (startOracle 0 emptyService))))
     = Some 3 \<and>
   getCurrentSession
      (clearMessages 30000 (runTicks (map scenarioTick [0..<3]) (startOracle 0 emptyService)))
     = getCurrentSession (runTicks (map scenarioTick [0..<3]) (startOracle 0 emptyService))"
  by code_simp

end
